theory Spec2Isabelle
  imports Main
begin

section \<open>Platform detection for the aimgr installer\<close>

text \<open>
  The development embeds \<^verbatim>\<open>scripts/detect_platform.py\<close>:
  \<^verbatim>\<open>
  def detect_platform():
      os_name = platform.system().lower()
      machine = platform.machine().lower()
      if os_name == "linux":
          arch = "amd64" if machine in ["x86_64", "amd64"] else "arm64"
          return f"linux_{arch}"
      elif os_name == "darwin":
          arch = "arm64" if machine == "arm64" else "amd64"
          return f"darwin_{arch}"
      elif os_name == "windows":
          arch = "amd64" if machine in ["x86_64", "amd64"] else "arm64"
          return f"windows_{arch}"
      else:
          return "unknown"

  if __name__ == "__main__":
      print(detect_platform())
  \<close>
\<close>

subsection \<open>The host environment\<close>

text \<open>
  The function takes no argument: it reads the two strings that
  \<^verbatim>\<open>platform.system()\<close> and \<^verbatim>\<open>platform.machine()\<close> report. The host is
  a record with these two fields; whatever else the environment holds is the extension
  part of the record scheme, which the function never looks at.
\<close>

record host =
  platform_system :: string
  platform_machine :: string

subsection \<open>Lowercasing\<close>

text \<open>
  \<^verbatim>\<open>str.lower()\<close> belongs to the Python runtime, not to the script. A string is
  modelled by its bytes, and \<open>lower\<close> maps the letters \<open>A\<close> to \<open>Z\<close> (codes 65 to
  90) to \<open>a\<close> to \<open>z\<close> (codes 97 to 122) and keeps every other byte. Python also
  lowercases letters outside ASCII. The script compares the lowercased strings with ASCII
  literals only, and the single character outside ASCII whose lowercase form is pure ASCII
  is the Kelvin sign (to \<open>k\<close>, a letter of none of the literals): a string with a
  character outside ASCII differs from every literal after lowercasing, in Python as in
  this model, and takes the same branch in both.
\<close>

definition lower_char :: "char \<Rightarrow> char" where
  "lower_char c =
     (if (65::nat) \<le> of_char c \<and> of_char c \<le> (90::nat)
      then char_of (of_char c + (32::nat)) else c)"

primrec lower :: "string \<Rightarrow> string" where
  "lower [] = []"
| "lower (c # cs) = lower_char c # lower cs"

subsection \<open>The detector\<close>

definition detect_platform :: "'a host_scheme \<Rightarrow> string" where
  "detect_platform h =
     (let os_name = lower (platform_system h);
          machine = lower (platform_machine h)
      in if os_name = ''linux'' then
           (let arch = (if machine \<in> set [''x86_64'', ''amd64'']
                        then ''amd64'' else ''arm64'')
            in ''linux_'' @ arch)
         else if os_name = ''darwin'' then
           (let arch = (if machine = ''arm64'' then ''arm64'' else ''amd64'')
            in ''darwin_'' @ arch)
         else if os_name = ''windows'' then
           (let arch = (if machine \<in> set [''x86_64'', ''amd64'']
                        then ''amd64'' else ''arm64'')
            in ''windows_'' @ arch)
         else ''unknown'')"

subsection \<open>The detector over any lowercasing function\<close>

text \<open>
  The same function with the runtime's \<^verbatim>\<open>str.lower\<close> left open as the parameter
  \<open>str_lower\<close>: nothing of the script but the two calls of \<^verbatim>\<open>.lower()\<close> depends on
  it. \<open>detect_platform\<close> is the instance at \<open>lower\<close>.
\<close>

definition detect_platform_with :: "(string \<Rightarrow> string) \<Rightarrow> 'a host_scheme \<Rightarrow> string" where
  "detect_platform_with str_lower h =
     (let os_name = str_lower (platform_system h);
          machine = str_lower (platform_machine h)
      in if os_name = ''linux'' then
           (let arch = (if machine \<in> set [''x86_64'', ''amd64'']
                        then ''amd64'' else ''arm64'')
            in ''linux_'' @ arch)
         else if os_name = ''darwin'' then
           (let arch = (if machine = ''arm64'' then ''arm64'' else ''amd64'')
            in ''darwin_'' @ arch)
         else if os_name = ''windows'' then
           (let arch = (if machine \<in> set [''x86_64'', ''amd64'']
                        then ''amd64'' else ''arm64'')
            in ''windows_'' @ arch)
         else ''unknown'')"

subsection \<open>Execution with Python values and exceptions\<close>

text \<open>
  Python is dynamically typed: a call returns a value of any type, a method call on a value
  without that method raises \<^verbatim>\<open>AttributeError\<close>, and a function whose body ends
  without a \<^verbatim>\<open>return\<close> returns \<^verbatim>\<open>None\<close>. The execution model keeps these
  possibilities: a value is a string or \<^verbatim>\<open>None\<close>, and an execution either returns a
  value (\<open>Inr\<close>) or raises (\<open>Inl\<close>).
\<close>

datatype pyval = Str string | NoneVal

datatype exn = AttributeError | OSError

text \<open>\<^verbatim>\<open>v.lower()\<close>: only a string has the method.\<close>

definition py_lower :: "pyval \<Rightarrow> exn + pyval" where
  "py_lower v = (case v of Str s \<Rightarrow> Inr (Str (lower s)) | NoneVal \<Rightarrow> Inl AttributeError)"

text \<open>A replacement field \<^verbatim>\<open>{v}\<close> of an f-string: the text of the value.\<close>

definition py_format :: "pyval \<Rightarrow> string" where
  "py_format v = (case v of Str s \<Rightarrow> s | NoneVal \<Rightarrow> ''None'')"

text \<open>
  Lines 8 to 22 of the script, run on the values that \<^verbatim>\<open>platform.system()\<close> and
  \<^verbatim>\<open>platform.machine()\<close> have returned. The first \<^verbatim>\<open>.lower()\<close> that raises ends
  the execution.
\<close>

definition detect_platform_body :: "pyval \<Rightarrow> pyval \<Rightarrow> exn + pyval" where
  "detect_platform_body system_value machine_value =
     (case py_lower system_value of
        Inl e \<Rightarrow> Inl e
      | Inr os_name \<Rightarrow>
         (case py_lower machine_value of
            Inl e \<Rightarrow> Inl e
          | Inr machine \<Rightarrow>
             if os_name = Str ''linux'' then
               (let arch = (if machine \<in> set [Str ''x86_64'', Str ''amd64'']
                            then Str ''amd64'' else Str ''arm64'')
                in Inr (Str (''linux_'' @ py_format arch)))
             else if os_name = Str ''darwin'' then
               (let arch = (if machine = Str ''arm64'' then Str ''arm64'' else Str ''amd64'')
                in Inr (Str (''darwin_'' @ py_format arch)))
             else if os_name = Str ''windows'' then
               (let arch = (if machine \<in> set [Str ''x86_64'', Str ''amd64'']
                            then Str ''amd64'' else Str ''arm64'')
                in Inr (Str (''windows_'' @ py_format arch)))
             else Inr (Str ''unknown'')))"

subsection \<open>The process environment\<close>

text \<open>
  What a Python process can observe besides the two platform strings: its arguments
  (the script imports \<^verbatim>\<open>sys\<close>), the environment variables, and its standard output.
  Standard output either accepts what is written to it, rejects it (a full device, a pipe
  whose reader has gone), or is closed, in which case \<^verbatim>\<open>sys.stdout\<close> is
  \<^verbatim>\<open>None\<close>. The stream is write-through (a terminal, or the interpreter's
  \<^verbatim>\<open>-u\<close> option) or buffered until the interpreter exits.
\<close>

datatype sink = Accepts | Rejects | Closed

record world = host +
  argv :: "string list"
  environ :: "(string \<times> string) list"
  stdout_sink :: sink
  write_through :: bool

text \<open>
  An invocation of \<open>detect_platform()\<close> in a world: \<^verbatim>\<open>platform.system()\<close> and
  \<^verbatim>\<open>platform.machine()\<close> return the world's two strings.
\<close>

definition detect_platform_run :: "world \<Rightarrow> exn + pyval" where
  "detect_platform_run w =
     detect_platform_body (Str (platform_system w)) (Str (platform_machine w))"

subsection \<open>The entry point\<close>

text \<open>
  The state of the process while the script runs: the bytes that have reached standard
  output, the text still held in the stream's buffer, and the exception that has been
  raised and not caught, if any.
\<close>

record process =
  delivered :: string
  pending :: string
  raised :: "exn option"

definition initial_process :: process where
  "initial_process = \<lparr>delivered = [], pending = [], raised = None\<rparr>"

text \<open>
  Flushing hands the buffered text to standard output. A sink that rejects it makes the
  flush raise \<^verbatim>\<open>OSError\<close>.
\<close>

definition flush :: "sink \<Rightarrow> process \<Rightarrow> process" where
  "flush s p =
     (if pending p = [] then p
      else case s of
             Accepts \<Rightarrow> p\<lparr>delivered := delivered p @ pending p, pending := []\<rparr>
           | Rejects \<Rightarrow> p\<lparr>raised := Some OSError\<rparr>
           | Closed \<Rightarrow> p)"

text \<open>
  \<^verbatim>\<open>print(v)\<close> does nothing when \<^verbatim>\<open>sys.stdout\<close> is \<^verbatim>\<open>None\<close>. Otherwise it
  writes the text of \<open>v\<close> and a newline (code 10) to the stream, which flushes at once when
  it is write-through.
\<close>

definition print :: "pyval \<Rightarrow> world \<Rightarrow> process \<Rightarrow> process" where
  "print v w p =
     (if stdout_sink w = Closed then p
      else let p' = p\<lparr>pending := pending p @ py_format v @ [CHR 0x0A]\<rparr>
           in if write_through w then flush (stdout_sink w) p' else p')"

text \<open>Lines 25 and 26: \<^verbatim>\<open>print(detect_platform())\<close>.\<close>

definition main :: "world \<Rightarrow> process \<Rightarrow> process" where
  "main w p =
     (case detect_platform_run w of
        Inl e \<Rightarrow> p\<lparr>raised := Some e\<rparr>
      | Inr v \<Rightarrow> print v w p)"

text \<open>
  The interpreter runs the script and exits. An uncaught exception gives exit status 1.
  Otherwise the interpreter flushes standard output; when that flush fails the exit status
  is 120, and when it succeeds the exit status is 0. The script never calls
  \<^verbatim>\<open>sys.exit\<close>.
\<close>

record finished =
  stdout :: string
  exit_status :: int

definition python_exit :: "world \<Rightarrow> process \<Rightarrow> finished" where
  "python_exit w p =
     (case raised p of
        Some e \<Rightarrow> \<lparr>stdout = delivered p, exit_status = 1\<rparr>
      | None \<Rightarrow>
         (let q = flush (stdout_sink w) p
          in case raised q of
               Some e \<Rightarrow> \<lparr>stdout = delivered q, exit_status = 120\<rparr>
             | None \<Rightarrow> \<lparr>stdout = delivered q, exit_status = 0\<rparr>))"

definition run_script :: "world \<Rightarrow> finished" where
  "run_script w = python_exit w (main w initial_process)"

subsection \<open>The two parts of an identifier\<close>

text \<open>
  The OS token of an identifier \<open><os>_<arch>\<close> is what stands before the first
  underscore, the architecture token what stands after it. The identifier \<open>unknown\<close>
  has no underscore: it is its own OS token and its architecture token is empty.
\<close>

definition os_token :: "string \<Rightarrow> string" where
  "os_token r = takeWhile (\<lambda>c. c \<noteq> CHR ''_'') r"

definition arch_token :: "string \<Rightarrow> string" where
  "arch_token r = drop 1 (dropWhile (\<lambda>c. c \<noteq> CHR ''_'') r)"

section \<open>Properties\<close>

subsection \<open>Auxiliary facts\<close>

lemma of_char_lower_char:
  "(of_char (lower_char c) :: nat) =
     (if (65::nat) \<le> of_char c \<and> of_char c \<le> (90::nat)
      then of_char c + (32::nat) else of_char c)"
proof (cases "(65::nat) \<le> of_char c \<and> of_char c \<le> (90::nat)")
  case True
  then have "(of_char c + (32::nat)) mod 256 = of_char c + (32::nat)"
    by simp
  then have "(of_char (char_of (of_char c + (32::nat))) :: nat) = of_char c + (32::nat)"
    by (simp only: of_char_of)
  with True show ?thesis
    by (simp add: lower_char_def)
next
  case False
  then show ?thesis
    by (auto simp add: lower_char_def)
qed

lemma lower_char_idem: "lower_char (lower_char c) = lower_char c"
proof -
  have "\<not> ((65::nat) \<le> of_char (lower_char c) \<and> (of_char (lower_char c) :: nat) \<le> (90::nat))"
    by (simp add: of_char_lower_char)
  then show ?thesis
    by (auto simp add: lower_char_def [of "lower_char c"])
qed

lemma lower_idem: "lower (lower s) = lower s"
  by (induction s) (simp_all add: lower_char_idem)

lemma detect_platform_linux:
  "lower (platform_system h) = ''linux'' \<Longrightarrow>
   detect_platform h =
     (if lower (platform_machine h) = ''x86_64'' \<or> lower (platform_machine h) = ''amd64''
      then ''linux_amd64'' else ''linux_arm64'')"
  by (simp add: detect_platform_def)

lemma detect_platform_darwin:
  "lower (platform_system h) = ''darwin'' \<Longrightarrow>
   detect_platform h =
     (if lower (platform_machine h) = ''arm64'' then ''darwin_arm64'' else ''darwin_amd64'')"
  by (simp add: detect_platform_def)

lemma detect_platform_windows:
  "lower (platform_system h) = ''windows'' \<Longrightarrow>
   detect_platform h =
     (if lower (platform_machine h) = ''x86_64'' \<or> lower (platform_machine h) = ''amd64''
      then ''windows_amd64'' else ''windows_arm64'')"
  by (simp add: detect_platform_def)

lemma detect_platform_other:
  "lower (platform_system h) \<noteq> ''linux'' \<Longrightarrow>
   lower (platform_system h) \<noteq> ''darwin'' \<Longrightarrow>
   lower (platform_system h) \<noteq> ''windows'' \<Longrightarrow>
   detect_platform h = ''unknown''"
  by (simp add: detect_platform_def)

lemma detect_platform_cases:
  "detect_platform h = ''linux_amd64'' \<or> detect_platform h = ''linux_arm64'' \<or>
   detect_platform h = ''darwin_amd64'' \<or> detect_platform h = ''darwin_arm64'' \<or>
   detect_platform h = ''windows_amd64'' \<or> detect_platform h = ''windows_arm64'' \<or>
   detect_platform h = ''unknown''"
proof -
  consider (linux) "lower (platform_system h) = ''linux''"
    | (darwin) "lower (platform_system h) = ''darwin''"
    | (windows) "lower (platform_system h) = ''windows''"
    | (other) "lower (platform_system h) \<noteq> ''linux''"
        "lower (platform_system h) \<noteq> ''darwin''"
        "lower (platform_system h) \<noteq> ''windows''"
    by blast
  then show ?thesis
  proof cases
    case linux
    then show ?thesis by (simp add: detect_platform_linux)
  next
    case darwin
    then show ?thesis by (simp add: detect_platform_darwin)
  next
    case windows
    then show ?thesis by (simp add: detect_platform_windows)
  next
    case other
    then show ?thesis by (simp add: detect_platform_other)
  qed
qed

lemma os_token_detect_platform:
  "os_token (detect_platform h) =
     (if lower (platform_system h) = ''linux'' then ''linux''
      else if lower (platform_system h) = ''darwin'' then ''darwin''
      else if lower (platform_system h) = ''windows'' then ''windows''
      else ''unknown'')"
  by (simp add: detect_platform_def os_token_def Let_def)

lemma arch_token_detect_platform:
  "arch_token (detect_platform h) =
     (if lower (platform_system h) = ''linux'' \<or> lower (platform_system h) = ''windows'' then
        (if lower (platform_machine h) = ''x86_64'' \<or> lower (platform_machine h) = ''amd64''
         then ''amd64'' else ''arm64'')
      else if lower (platform_system h) = ''darwin'' then
        (if lower (platform_machine h) = ''arm64'' then ''arm64'' else ''amd64'')
      else [])"
  by (simp add: detect_platform_def arch_token_def Let_def)

lemma detect_platform_with_lower: "detect_platform_with lower h = detect_platform h"
  by (simp add: detect_platform_with_def detect_platform_def)

lemma detect_platform_body_Str:
  "detect_platform_body (Str s) (Str m) =
     Inr (Str (detect_platform \<lparr>platform_system = s, platform_machine = m\<rparr>))"
  by (simp add: detect_platform_body_def py_lower_def py_format_def detect_platform_def Let_def)

text \<open>The raising path is there: a value that is not a string makes the execution raise.\<close>

lemma detect_platform_body_NoneVal:
  "detect_platform_body NoneVal v = Inl AttributeError"
  "detect_platform_body (Str s) NoneVal = Inl AttributeError"
  by (simp_all add: detect_platform_body_def py_lower_def)

lemma detect_platform_run_eq: "detect_platform_run w = Inr (Str (detect_platform w))"
  by (simp add: detect_platform_run_def detect_platform_body_Str detect_platform_def)

lemma count_newline_detect_platform: "count_list (detect_platform h) (CHR 0x0A) = 0"
  using detect_platform_cases [of h] by auto

lemma main_initial:
  "main w initial_process =
     (if stdout_sink w = Closed then initial_process
      else if write_through w
        then flush (stdout_sink w)
               (initial_process\<lparr>pending := detect_platform w @ [CHR 0x0A]\<rparr>)
        else initial_process\<lparr>pending := detect_platform w @ [CHR 0x0A]\<rparr>)"
  by (simp add: main_def detect_platform_run_eq print_def py_format_def initial_process_def
      Let_def)

lemma run_script_Accepts:
  "stdout_sink w = Accepts \<Longrightarrow>
   run_script w = \<lparr>stdout = detect_platform w @ [CHR 0x0A], exit_status = 0\<rparr>"
  unfolding run_script_def main_initial
  by (simp add: python_exit_def flush_def initial_process_def Let_def)

text \<open>
  The other three kinds of standard output: a closed one gets nothing and the status is 0;
  one that rejects the write gets nothing, and the status is 1 when the stream is
  write-through (\<open>print\<close> raises) and 120 when it is buffered (the flush at exit fails).
\<close>

lemma run_script_Closed:
  "stdout_sink w = Closed \<Longrightarrow> run_script w = \<lparr>stdout = [], exit_status = 0\<rparr>"
  unfolding run_script_def main_initial
  by (simp add: python_exit_def flush_def initial_process_def Let_def)

lemma run_script_Rejects:
  "stdout_sink w = Rejects \<Longrightarrow>
   run_script w = \<lparr>stdout = [], exit_status = (if write_through w then 1 else 120)\<rparr>"
  unfolding run_script_def main_initial
  by (simp add: python_exit_def flush_def initial_process_def Let_def)

subsection \<open>The range of the detector\<close>

text \<open>
  Claim C1. Whatever the host reports as OS name and machine architecture,
  \<open>detect_platform\<close> returns one of the seven strings \<open>linux_amd64\<close>, \<open>linux_arm64\<close>,
  \<open>darwin_amd64\<close>, \<open>darwin_arm64\<close>, \<open>windows_amd64\<close>, \<open>windows_arm64\<close> and
  \<open>unknown\<close>: an OS token among linux, darwin and windows joined by an underscore to an
  architecture token among amd64 and arm64, or exactly \<open>unknown\<close>.
\<close>

theorem detect_platform_range:
  "detect_platform h \<in>
     {''linux_amd64'', ''linux_arm64'', ''darwin_amd64'', ''darwin_arm64'',
      ''windows_amd64'', ''windows_arm64'', ''unknown''}"
  using detect_platform_cases [of h] by blast

subsection \<open>The three recognised operating systems\<close>

text \<open>
  Claim C2. When the lowercased OS name is \<open>linux\<close>, the result is \<open>linux_amd64\<close> if
  the lowercased machine string is \<open>x86_64\<close> or \<open>amd64\<close>, and \<open>linux_arm64\<close> for every
  other machine string, \<open>aarch64\<close> and unrecognised architectures included.
\<close>

theorem linux_arch_rule:
  "lower (platform_system h) = ''linux'' \<Longrightarrow>
   detect_platform h =
     (if lower (platform_machine h) = ''x86_64'' \<or> lower (platform_machine h) = ''amd64''
      then ''linux_amd64'' else ''linux_arm64'')"
  by (rule detect_platform_linux)

theorem linux_arch_rule_witness:
  "lower (platform_system \<lparr>platform_system = ''Linux'', platform_machine = ''aarch64''\<rparr>) = ''linux'' \<and>
   detect_platform \<lparr>platform_system = ''Linux'', platform_machine = ''aarch64''\<rparr> = ''linux_arm64'' \<and>
   lower (platform_system \<lparr>platform_system = ''linux'', platform_machine = ''x86_64''\<rparr>) = ''linux'' \<and>
   detect_platform \<lparr>platform_system = ''linux'', platform_machine = ''x86_64''\<rparr> = ''linux_amd64''"
proof -
  have os: "lower ''Linux'' = ''linux''" "lower ''linux'' = ''linux''"
    by code_simp+
  have m: "lower ''aarch64'' = ''aarch64''" "lower ''x86_64'' = ''x86_64''"
    by code_simp+
  show ?thesis
    using linux_arch_rule [of "\<lparr>platform_system = ''Linux'', platform_machine = ''aarch64''\<rparr>"]
      linux_arch_rule [of "\<lparr>platform_system = ''linux'', platform_machine = ''x86_64''\<rparr>"]
    by (simp add: os m del: lower.simps)
qed

text \<open>
  Claim C3. When the lowercased OS name is \<open>darwin\<close>, the result is \<open>darwin_arm64\<close> if
  the lowercased machine string is exactly \<open>arm64\<close>, and \<open>darwin_amd64\<close> for every other
  machine string; the witness evaluates the host (darwin, x86_64) to \<open>darwin_amd64\<close>.
\<close>

theorem darwin_arch_rule:
  "lower (platform_system h) = ''darwin'' \<Longrightarrow>
   detect_platform h =
     (if lower (platform_machine h) = ''arm64'' then ''darwin_arm64'' else ''darwin_amd64'')"
  by (rule detect_platform_darwin)

theorem darwin_arch_rule_witness:
  "lower (platform_system \<lparr>platform_system = ''darwin'', platform_machine = ''x86_64''\<rparr>) = ''darwin'' \<and>
   detect_platform \<lparr>platform_system = ''darwin'', platform_machine = ''x86_64''\<rparr> = ''darwin_amd64'' \<and>
   lower (platform_system \<lparr>platform_system = ''Darwin'', platform_machine = ''arm64''\<rparr>) = ''darwin'' \<and>
   detect_platform \<lparr>platform_system = ''Darwin'', platform_machine = ''arm64''\<rparr> = ''darwin_arm64''"
proof -
  have os: "lower ''darwin'' = ''darwin''" "lower ''Darwin'' = ''darwin''"
    by code_simp+
  have m: "lower ''x86_64'' = ''x86_64''" "lower ''arm64'' = ''arm64''"
    by code_simp+
  show ?thesis
    using darwin_arch_rule [of "\<lparr>platform_system = ''darwin'', platform_machine = ''x86_64''\<rparr>"]
      darwin_arch_rule [of "\<lparr>platform_system = ''Darwin'', platform_machine = ''arm64''\<rparr>"]
    by (simp add: os m del: lower.simps)
qed

text \<open>
  Claim C4. The Windows branch applies the architecture rule of the Linux branch: for one
  and the same machine string, the architecture token chosen on a host whose lowercased OS
  name is \<open>windows\<close> equals the one chosen on a host whose lowercased OS name is
  \<open>linux\<close>, namely \<open>amd64\<close> if and only if the lowercased machine string is \<open>x86_64\<close>
  or \<open>amd64\<close> and \<open>arm64\<close> otherwise, and the Windows result is \<open>windows_\<close> followed
  by that token.
\<close>

theorem windows_same_rule_as_linux:
  "lower (platform_system hw) = ''windows'' \<Longrightarrow>
   lower (platform_system hl) = ''linux'' \<Longrightarrow>
   platform_machine hw = platform_machine hl \<Longrightarrow>
   arch_token (detect_platform hw) = arch_token (detect_platform hl) \<and>
   arch_token (detect_platform hl) =
     (if lower (platform_machine hl) = ''x86_64'' \<or> lower (platform_machine hl) = ''amd64''
      then ''amd64'' else ''arm64'') \<and>
   detect_platform hw = ''windows_'' @ arch_token (detect_platform hw)"
  by (simp add: detect_platform_windows detect_platform_linux arch_token_def)

theorem windows_same_rule_as_linux_witness:
  "lower (platform_system \<lparr>platform_system = ''Windows'', platform_machine = ''AMD64''\<rparr>) = ''windows'' \<and>
   lower (platform_system \<lparr>platform_system = ''Linux'', platform_machine = ''AMD64''\<rparr>) = ''linux'' \<and>
   platform_machine \<lparr>platform_system = ''Windows'', platform_machine = ''AMD64''\<rparr> = platform_machine \<lparr>platform_system = ''Linux'', platform_machine = ''AMD64''\<rparr> \<and>
   arch_token (detect_platform \<lparr>platform_system = ''Windows'', platform_machine = ''AMD64''\<rparr>) = arch_token (detect_platform \<lparr>platform_system = ''Linux'', platform_machine = ''AMD64''\<rparr>) \<and>
   arch_token (detect_platform \<lparr>platform_system = ''Linux'', platform_machine = ''AMD64''\<rparr>) = ''amd64'' \<and>
   detect_platform \<lparr>platform_system = ''Windows'', platform_machine = ''AMD64''\<rparr> = ''windows_amd64''"
proof -
  have os: "lower ''Windows'' = ''windows''" "lower ''Linux'' = ''linux''"
    by code_simp+
  have m: "lower ''AMD64'' = ''amd64''"
    by code_simp
  show ?thesis
    using windows_same_rule_as_linux [of "\<lparr>platform_system = ''Windows'', platform_machine = ''AMD64''\<rparr>" "\<lparr>platform_system = ''Linux'', platform_machine = ''AMD64''\<rparr>"]
    by (auto simp add: os m simp del: lower.simps)
qed

subsection \<open>Unrecognised operating systems\<close>

text \<open>
  Claim C5. When the lowercased OS name is none of \<open>linux\<close>, \<open>darwin\<close> and
  \<open>windows\<close>, the result is the literal \<open>unknown\<close>, with no architecture suffix,
  whatever the machine string; the witness evaluates the host (freebsd, x86_64).
\<close>

theorem unknown_os:
  "lower (platform_system h) \<notin> {''linux'', ''darwin'', ''windows''} \<Longrightarrow>
   detect_platform h = ''unknown''"
  by (simp add: detect_platform_other)

theorem unknown_os_witness:
  "lower (platform_system \<lparr>platform_system = ''freebsd'', platform_machine = ''x86_64''\<rparr>) \<notin> {''linux'', ''darwin'', ''windows''} \<and>
   detect_platform \<lparr>platform_system = ''freebsd'', platform_machine = ''x86_64''\<rparr> = ''unknown''"
proof -
  have os: "lower ''freebsd'' = ''freebsd''"
    by code_simp
  show ?thesis
    using unknown_os [of "\<lparr>platform_system = ''freebsd'', platform_machine = ''x86_64''\<rparr>"]
    by (simp add: os del: lower.simps)
qed

subsection \<open>Totality\<close>

text \<open>
  Claim C6. \<open>detect_platform\<close> is total over string inputs: whatever two strings
  \<^verbatim>\<open>platform.system()\<close> and \<^verbatim>\<open>platform.machine()\<close> return, the execution of the
  body returns, it returns a string (not \<^verbatim>\<open>None\<close>: no path ends without a
  \<^verbatim>\<open>return\<close>), and it does not raise. The body has no loop, and the one recursion
  below it, \<open>lower\<close>, is structural on the string, so every execution ends.
\<close>

theorem detect_platform_returns_string:
  "\<exists>r. detect_platform_body (Str system) (Str machine) = Inr (Str r)"
  by (simp add: detect_platform_body_Str)

subsection \<open>Case-insensitive matching\<close>

text \<open>
  Claim C7. Matching is case-insensitive through lowercasing: the result for a host equals
  the result for the host that reports the lowercased OS name and the lowercased machine
  string. This is stated for the detector over any lowercasing function \<open>str_lower\<close>
  that gives the same string when applied a second time to the two reported strings, as
  \<^verbatim>\<open>str.lower\<close> does on every string. The witness takes \<open>lower\<close> and the host
  (windows, AMD64), whose result is \<open>windows_amd64\<close>.
\<close>

theorem case_insensitive:
  "str_lower (str_lower (platform_system h)) = str_lower (platform_system h) \<Longrightarrow>
   str_lower (str_lower (platform_machine h)) = str_lower (platform_machine h) \<Longrightarrow>
   detect_platform_with str_lower h =
     detect_platform_with str_lower
       (h\<lparr>platform_system := str_lower (platform_system h),
          platform_machine := str_lower (platform_machine h)\<rparr>)"
  by (simp add: detect_platform_with_def)

theorem case_insensitive_witness:
  "lower (lower (platform_system \<lparr>platform_system = ''windows'', platform_machine = ''AMD64''\<rparr>)) = lower (platform_system \<lparr>platform_system = ''windows'', platform_machine = ''AMD64''\<rparr>) \<and>
   lower (lower (platform_machine \<lparr>platform_system = ''windows'', platform_machine = ''AMD64''\<rparr>)) = lower (platform_machine \<lparr>platform_system = ''windows'', platform_machine = ''AMD64''\<rparr>) \<and>
   detect_platform_with lower \<lparr>platform_system = ''windows'', platform_machine = ''AMD64''\<rparr> =
     detect_platform_with lower \<lparr>platform_system = ''windows'', platform_machine = ''amd64''\<rparr> \<and>
   detect_platform_with lower \<lparr>platform_system = ''windows'', platform_machine = ''AMD64''\<rparr> = ''windows_amd64''"
proof -
  have os: "lower ''windows'' = ''windows''"
    by code_simp
  have m: "lower ''AMD64'' = ''amd64''" "lower ''amd64'' = ''amd64''"
    by code_simp+
  have r: "detect_platform_with lower \<lparr>platform_system = ''windows'', platform_machine = ''amd64''\<rparr> = ''windows_amd64''"
    by (simp add: detect_platform_with_def os m del: lower.simps)
  show ?thesis
    using case_insensitive [of lower "\<lparr>platform_system = ''windows'', platform_machine = ''AMD64''\<rparr>"] r
    by (simp add: os m del: lower.simps)
qed

subsection \<open>The entry point\<close>

text \<open>
  Claim C8, as stated: run as the entry point, the program writes to standard output
  exactly one line, the string returned by \<open>detect_platform\<close> followed by a newline, and
  the exit status is 0 for every environment. This fails when standard output rejects the
  write: on a buffered stream the text never arrives and the interpreter exits with
  status 120.
\<close>

theorem run_script_rejecting_stdout_counterexample:
  "stdout (run_script \<lparr>platform_system = ''Linux'', platform_machine = ''x86_64'', argv = [], environ = [],
      stdout_sink = Rejects, write_through = False\<rparr>) = [] \<and>
   exit_status (run_script \<lparr>platform_system = ''Linux'', platform_machine = ''x86_64'', argv = [], environ = [],
      stdout_sink = Rejects, write_through = False\<rparr>) = 120 \<and>
   \<not> (stdout (run_script \<lparr>platform_system = ''Linux'', platform_machine = ''x86_64'', argv = [], environ = [],
      stdout_sink = Rejects, write_through = False\<rparr>) =
          detect_platform \<lparr>platform_system = ''Linux'', platform_machine = ''x86_64'', argv = [], environ = [],
      stdout_sink = Rejects, write_through = False\<rparr> @ [CHR 0x0A] \<and>
        exit_status (run_script \<lparr>platform_system = ''Linux'', platform_machine = ''x86_64'', argv = [], environ = [],
      stdout_sink = Rejects, write_through = False\<rparr>) = 0)"
  unfolding run_script_def main_initial
  by (simp add: python_exit_def flush_def initial_process_def Let_def)

text \<open>
  Claim C8, amended: when standard output accepts what is written to it, the program
  writes exactly one line, the string that the invocation of \<open>detect_platform\<close> returns
  followed by one newline (the output holds a single newline character), and the exit
  status is 0, whatever OS name and machine string the host reports.
\<close>

theorem run_script_output:
  "stdout_sink w = Accepts \<Longrightarrow>
   (\<exists>r. detect_platform_run w = Inr (Str r) \<and>
        stdout (run_script w) = r @ [CHR 0x0A]) \<and>
   count_list (stdout (run_script w)) (CHR 0x0A) = 1 \<and>
   exit_status (run_script w) = 0"
  by (simp add: run_script_Accepts detect_platform_run_eq count_newline_detect_platform)

theorem run_script_output_witness:
  "stdout_sink \<lparr>platform_system = ''Darwin'', platform_machine = ''arm64'', argv = [], environ = [],
      stdout_sink = Accepts, write_through = False\<rparr> = Accepts \<and>
   stdout (run_script \<lparr>platform_system = ''Darwin'', platform_machine = ''arm64'', argv = [], environ = [],
      stdout_sink = Accepts, write_through = False\<rparr>) = ''darwin_arm64'' @ [CHR 0x0A] \<and>
   count_list (stdout (run_script \<lparr>platform_system = ''Darwin'', platform_machine = ''arm64'', argv = [], environ = [],
      stdout_sink = Accepts, write_through = False\<rparr>)) (CHR 0x0A) = 1 \<and>
   exit_status (run_script \<lparr>platform_system = ''Darwin'', platform_machine = ''arm64'', argv = [], environ = [],
      stdout_sink = Accepts, write_through = False\<rparr>) = 0"
proof -
  have r: "detect_platform \<lparr>platform_system = ''Darwin'', platform_machine = ''arm64'', argv = [], environ = [],
      stdout_sink = Accepts, write_through = False\<rparr> = ''darwin_arm64''"
    by code_simp
  show ?thesis
    using run_script_output [of "\<lparr>platform_system = ''Darwin'', platform_machine = ''arm64'', argv = [], environ = [],
      stdout_sink = Accepts, write_through = False\<rparr>"]
    by (simp add: detect_platform_run_eq r)
qed

subsection \<open>Dependence on the two inputs only\<close>

text \<open>
  Claim C9. The detector is deterministic: two invocations in worlds that report the same
  OS name and the same machine string both return, and return the same string, whatever
  else differs between the two worlds (arguments, environment variables, the state of
  standard output). The result depends on nothing but the two reported strings.
\<close>

theorem deterministic:
  "platform_system w1 = platform_system w2 \<Longrightarrow>
   platform_machine w1 = platform_machine w2 \<Longrightarrow>
   \<exists>r. detect_platform_run w1 = Inr (Str r) \<and> detect_platform_run w2 = Inr (Str r)"
  by (simp add: detect_platform_run_eq detect_platform_def)

theorem deterministic_witness:
  "platform_system \<lparr>platform_system = ''Linux'', platform_machine = ''x86_64'', argv = [], environ = [],
      stdout_sink = Accepts, write_through = False\<rparr> = platform_system \<lparr>platform_system = ''Linux'', platform_machine = ''x86_64'', argv = [''detect_platform.py''], environ = [(''LANG'', ''C'')],
      stdout_sink = Closed, write_through = True\<rparr> \<and>
   platform_machine \<lparr>platform_system = ''Linux'', platform_machine = ''x86_64'', argv = [], environ = [],
      stdout_sink = Accepts, write_through = False\<rparr> = platform_machine \<lparr>platform_system = ''Linux'', platform_machine = ''x86_64'', argv = [''detect_platform.py''], environ = [(''LANG'', ''C'')],
      stdout_sink = Closed, write_through = True\<rparr> \<and>
   (\<exists>r. detect_platform_run \<lparr>platform_system = ''Linux'', platform_machine = ''x86_64'', argv = [], environ = [],
      stdout_sink = Accepts, write_through = False\<rparr> = Inr (Str r) \<and>
        detect_platform_run \<lparr>platform_system = ''Linux'', platform_machine = ''x86_64'', argv = [''detect_platform.py''], environ = [(''LANG'', ''C'')],
      stdout_sink = Closed, write_through = True\<rparr> = Inr (Str r))"
  using deterministic [of "\<lparr>platform_system = ''Linux'', platform_machine = ''x86_64'', argv = [], environ = [],
      stdout_sink = Accepts, write_through = False\<rparr>" "\<lparr>platform_system = ''Linux'', platform_machine = ''x86_64'', argv = [''detect_platform.py''], environ = [(''LANG'', ''C'')],
      stdout_sink = Closed, write_through = True\<rparr>"]
  by simp

text \<open>
  Claim C10. The machine string has no influence on whether the OS is recognised: two hosts
  that report the same OS name get results with the same OS token, whatever their machine
  strings; and when the lowercased OS name is none of \<open>linux\<close>, \<open>darwin\<close> and
  \<open>windows\<close>, both results are \<open>unknown\<close>.
\<close>

theorem os_token_independent_of_machine:
  "platform_system h1 = platform_system h2 \<Longrightarrow>
   os_token (detect_platform h1) = os_token (detect_platform h2) \<and>
   (lower (platform_system h1) \<notin> {''linux'', ''darwin'', ''windows''} \<longrightarrow>
      detect_platform h1 = ''unknown'' \<and> detect_platform h2 = ''unknown'')"
  by (simp add: os_token_detect_platform detect_platform_other)

theorem os_token_independent_of_machine_witness:
  "platform_system \<lparr>platform_system = ''freebsd'', platform_machine = ''x86_64''\<rparr> = platform_system \<lparr>platform_system = ''freebsd'', platform_machine = ''riscv64''\<rparr> \<and>
   lower (platform_system \<lparr>platform_system = ''freebsd'', platform_machine = ''x86_64''\<rparr>) \<notin> {''linux'', ''darwin'', ''windows''} \<and>
   os_token (detect_platform \<lparr>platform_system = ''freebsd'', platform_machine = ''x86_64''\<rparr>) = os_token (detect_platform \<lparr>platform_system = ''freebsd'', platform_machine = ''riscv64''\<rparr>) \<and>
   detect_platform \<lparr>platform_system = ''freebsd'', platform_machine = ''x86_64''\<rparr> = ''unknown'' \<and>
   detect_platform \<lparr>platform_system = ''freebsd'', platform_machine = ''riscv64''\<rparr> = ''unknown'' \<and>
   platform_system \<lparr>platform_system = ''linux'', platform_machine = ''x86_64''\<rparr> = platform_system \<lparr>platform_system = ''linux'', platform_machine = ''aarch64''\<rparr> \<and>
   os_token (detect_platform \<lparr>platform_system = ''linux'', platform_machine = ''x86_64''\<rparr>) = os_token (detect_platform \<lparr>platform_system = ''linux'', platform_machine = ''aarch64''\<rparr>)"
proof -
  have os: "lower ''freebsd'' = ''freebsd''" "lower ''linux'' = ''linux''"
    by code_simp+
  show ?thesis
    using os_token_independent_of_machine [of "\<lparr>platform_system = ''freebsd'', platform_machine = ''x86_64''\<rparr>" "\<lparr>platform_system = ''freebsd'', platform_machine = ''riscv64''\<rparr>"]
      os_token_independent_of_machine [of "\<lparr>platform_system = ''linux'', platform_machine = ''x86_64''\<rparr>" "\<lparr>platform_system = ''linux'', platform_machine = ''aarch64''\<rparr>"]
    by (simp add: os del: lower.simps)
qed

end
